theory Spec2Isabelle
  imports Main "HOL-Library.Word"
begin

unbundle bit_operations_syntax

section \<open>dr.h: the debug control register DR7\<close>

text \<open>
  The C type \<open>dr7\<close> is a union of a 64-bit integer \<open>flags\<close> and a struct of bit-fields.
  The struct view is the record below: one field per bit-field, in declaration order,
  each with the declared width. The bit-fields are allocated from bit 0 upwards, which is
  the layout the header documents (L0 at bit 0, R/W0 at bits 17:16, LEN0 at bits 19:18).
\<close>

record dr7 =
  local_breakpoint_0 :: "1 word"
  global_breakpoint_0 :: "1 word"
  local_breakpoint_1 :: "1 word"
  global_breakpoint_1 :: "1 word"
  local_breakpoint_2 :: "1 word"
  global_breakpoint_2 :: "1 word"
  local_breakpoint_3 :: "1 word"
  global_breakpoint_3 :: "1 word"
  local_exact_breakpoint :: "1 word"
  global_exact_breakpoint :: "1 word"
  reserved1 :: "1 word"
  restricted_transactional_memory :: "1 word"
  reserved2 :: "1 word"
  general_detect :: "1 word"
  reserved3 :: "2 word"
  read_write_0 :: "2 word"
  length_0 :: "2 word"
  read_write_1 :: "2 word"
  length_1 :: "2 word"
  read_write_2 :: "2 word"
  length_2 :: "2 word"
  read_write_3 :: "2 word"
  length_3 :: "2 word"
  reserved4 :: "32 word"

text \<open>Reading a bit-field of the given width at bit position \<open>pos\<close> of the raw value, and
  the contribution of a bit-field to the raw value.\<close>

definition bitfield :: "nat \<Rightarrow> 64 word \<Rightarrow> 'a::len word" where
  "bitfield pos x = ucast (drop_bit pos x)"

definition place :: "nat \<Rightarrow> 'a::len word \<Rightarrow> 64 word" where
  "place pos f = push_bit pos (ucast f)"

text \<open>Writing the union through \<open>flags\<close> (as in \<open>_dr7.flags = ctx->Dr7\<close>) gives the struct view
  \<open>dr7_of_flags\<close>; reading \<open>_dr7.flags\<close> back from the struct view is \<open>flags\<close>.\<close>

definition dr7_of_flags :: "64 word \<Rightarrow> dr7" where
  "dr7_of_flags x =
    \<lparr> local_breakpoint_0 = bitfield 0 x,
      global_breakpoint_0 = bitfield 1 x,
      local_breakpoint_1 = bitfield 2 x,
      global_breakpoint_1 = bitfield 3 x,
      local_breakpoint_2 = bitfield 4 x,
      global_breakpoint_2 = bitfield 5 x,
      local_breakpoint_3 = bitfield 6 x,
      global_breakpoint_3 = bitfield 7 x,
      local_exact_breakpoint = bitfield 8 x,
      global_exact_breakpoint = bitfield 9 x,
      reserved1 = bitfield 10 x,
      restricted_transactional_memory = bitfield 11 x,
      reserved2 = bitfield 12 x,
      general_detect = bitfield 13 x,
      reserved3 = bitfield 14 x,
      read_write_0 = bitfield 16 x,
      length_0 = bitfield 18 x,
      read_write_1 = bitfield 20 x,
      length_1 = bitfield 22 x,
      read_write_2 = bitfield 24 x,
      length_2 = bitfield 26 x,
      read_write_3 = bitfield 28 x,
      length_3 = bitfield 30 x,
      reserved4 = bitfield 32 x \<rparr>"

definition flags :: "dr7 \<Rightarrow> 64 word" where
  "flags d =
     place 0 (local_breakpoint_0 d) OR
     place 1 (global_breakpoint_0 d) OR
     place 2 (local_breakpoint_1 d) OR
     place 3 (global_breakpoint_1 d) OR
     place 4 (local_breakpoint_2 d) OR
     place 5 (global_breakpoint_2 d) OR
     place 6 (local_breakpoint_3 d) OR
     place 7 (global_breakpoint_3 d) OR
     place 8 (local_exact_breakpoint d) OR
     place 9 (global_exact_breakpoint d) OR
     place 10 (reserved1 d) OR
     place 11 (restricted_transactional_memory d) OR
     place 12 (reserved2 d) OR
     place 13 (general_detect d) OR
     place 14 (reserved3 d) OR
     place 16 (read_write_0 d) OR
     place 18 (length_0 d) OR
     place 20 (read_write_1 d) OR
     place 22 (length_1 d) OR
     place 24 (read_write_2 d) OR
     place 26 (length_2 d) OR
     place 28 (read_write_3 d) OR
     place 30 (length_3 d) OR
     place 32 (reserved4 d)"


section \<open>hwbp.h: enumerations and the breakpoint descriptor\<close>

datatype BP_READ_WRITE = INSTRUCTION_EXECUTION | DATA_WRITEONLY | IO_READWRITE | DATA_READWRITE

fun BP_READ_WRITE_val :: "BP_READ_WRITE \<Rightarrow> int" where
  "BP_READ_WRITE_val INSTRUCTION_EXECUTION = 0"
| "BP_READ_WRITE_val DATA_WRITEONLY = 1"
| "BP_READ_WRITE_val IO_READWRITE = 2"
| "BP_READ_WRITE_val DATA_READWRITE = 3"

datatype BP_LENGTH = ONE_BYTE | TWO_BYTE | EIGHT_BYTE | FOUR_BYTE

fun BP_LENGTH_val :: "BP_LENGTH \<Rightarrow> int" where
  "BP_LENGTH_val ONE_BYTE = 0"
| "BP_LENGTH_val TWO_BYTE = 1"
| "BP_LENGTH_val EIGHT_BYTE = 2"
| "BP_LENGTH_val FOUR_BYTE = 3"

text \<open>The size of the watched region each enumerator is named after.\<close>

fun BP_LENGTH_bytes :: "BP_LENGTH \<Rightarrow> nat" where
  "BP_LENGTH_bytes ONE_BYTE = 1"
| "BP_LENGTH_bytes TWO_BYTE = 2"
| "BP_LENGTH_bytes EIGHT_BYTE = 8"
| "BP_LENGTH_bytes FOUR_BYTE = 4"

type_synonym BOOL = "32 word"

definition TRUE :: BOOL where "TRUE = 1"
definition FALSE :: BOOL where "FALSE = 0"

text \<open>
  \<open>struct _HWBP\<close>. \<open>target\<close> is an \<open>LPVOID\<close> that the code casts to \<open>DWORD64\<close>, \<open>index\<close> is an
  \<open>int8_t\<close> (\<open>-1\<close> is the word \<open>255\<close>), \<open>enabled\<close> a \<open>uint8_t\<close>. The field \<open>length\<close> is
  called \<open>length_f\<close> here.
\<close>

record HWBP =
  target :: "64 word"
  threadId :: "32 word"
  read_write :: BP_READ_WRITE
  length_f :: BP_LENGTH
  index :: "8 word"
  enabled :: "8 word"

text \<open>
  The part of the Windows \<open>CONTEXT\<close> structure that the code and
  \<open>CONTEXT_DEBUG_REGISTERS\<close> refer to.
\<close>

record CONTEXT =
  ContextFlags :: "32 word"
  Dr0 :: "64 word"
  Dr1 :: "64 word"
  Dr2 :: "64 word"
  Dr3 :: "64 word"
  Dr6 :: "64 word"
  Dr7 :: "64 word"

section \<open>hwbp.c: descriptor construction\<close>

definition bp_init :: "HWBP \<Rightarrow> 64 word \<Rightarrow> 32 word \<Rightarrow> BP_READ_WRITE \<Rightarrow> BP_LENGTH \<Rightarrow> HWBP" where
  "bp_init bp lpTarget tid rw len =
     bp\<lparr> target := lpTarget, threadId := tid, read_write := rw, length_f := len,
         index := - 1, enabled := 0 \<rparr>"

text \<open>
  \<open>bp_create\<close>: the argument \<open>mem\<close> is what \<open>malloc\<close> returned, \<open>None\<close> for \<open>NULL\<close> and
  otherwise the (uninitialised) block.
\<close>

definition bp_create ::
  "HWBP option \<Rightarrow> 64 word \<Rightarrow> 32 word \<Rightarrow> BP_READ_WRITE \<Rightarrow> BP_LENGTH \<Rightarrow> HWBP option" where
  "bp_create mem lpTarget tid rw len =
     (case mem of None \<Rightarrow> None | Some bp \<Rightarrow> Some (bp_init bp lpTarget tid rw len))"

section \<open>hwbp.c: slot allocation and slot mutation\<close>

definition get_free_index :: "dr7 \<Rightarrow> 8 word" where
  "get_free_index d =
     (if local_breakpoint_0 d = 0 then 0
      else if local_breakpoint_1 d = 0 then 1
      else if local_breakpoint_2 d = 0 then 2
      else if local_breakpoint_3 d = 0 then 3
      else - 1)"

text \<open>
  The \<open>switch (idx)\<close> of \<open>bp_add_to_ctx\<close>: the updated context and register view, or \<open>None\<close>
  for the \<open>default\<close> branch. Assigning an enumerator to a 2-bit field keeps its low 2 bits.
\<close>

definition add_switch :: "8 word \<Rightarrow> HWBP \<Rightarrow> CONTEXT \<Rightarrow> dr7 \<Rightarrow> (CONTEXT \<times> dr7) option" where
  "add_switch idx bp ctx d =
     (if idx = 0 then
        Some (ctx\<lparr>Dr0 := target bp\<rparr>,
              d\<lparr>local_breakpoint_0 := 1,
                length_0 := word_of_int (BP_LENGTH_val (length_f bp)),
                read_write_0 := word_of_int (BP_READ_WRITE_val (read_write bp))\<rparr>)
      else if idx = 1 then
        Some (ctx\<lparr>Dr1 := target bp\<rparr>,
              d\<lparr>local_breakpoint_1 := 1,
                length_1 := word_of_int (BP_LENGTH_val (length_f bp)),
                read_write_1 := word_of_int (BP_READ_WRITE_val (read_write bp))\<rparr>)
      else if idx = 2 then
        Some (ctx\<lparr>Dr2 := target bp\<rparr>,
              d\<lparr>local_breakpoint_2 := 1,
                length_2 := word_of_int (BP_LENGTH_val (length_f bp)),
                read_write_2 := word_of_int (BP_READ_WRITE_val (read_write bp))\<rparr>)
      else if idx = 3 then
        Some (ctx\<lparr>Dr3 := target bp\<rparr>,
              d\<lparr>local_breakpoint_3 := 1,
                length_3 := word_of_int (BP_LENGTH_val (length_f bp)),
                read_write_3 := word_of_int (BP_READ_WRITE_val (read_write bp))\<rparr>)
      else None)"

definition bp_add_to_ctx :: "HWBP \<Rightarrow> CONTEXT \<Rightarrow> BOOL \<times> HWBP \<times> CONTEXT" where
  "bp_add_to_ctx bp ctx =
     (let d = dr7_of_flags (Dr7 ctx);
          idx = get_free_index d
      in if idx = - 1 then (FALSE, bp, ctx)
         else case add_switch idx bp ctx d of
                None \<Rightarrow> (FALSE, bp, ctx)
              | Some (ctx1, d1) \<Rightarrow> (TRUE, bp\<lparr>index := idx\<rparr>, ctx1\<lparr>Dr7 := flags d1\<rparr>))"

text \<open>The \<open>switch (bp->index)\<close> of \<open>bp_remove_from_ctx\<close>, \<open>None\<close> for the \<open>default\<close> branch.\<close>

definition remove_switch :: "8 word \<Rightarrow> CONTEXT \<Rightarrow> dr7 \<Rightarrow> (CONTEXT \<times> dr7) option" where
  "remove_switch idx ctx d =
     (if idx = 0 then
        Some (ctx\<lparr>Dr0 := 0\<rparr>, d\<lparr>local_breakpoint_0 := 0, length_0 := 0, read_write_0 := 0\<rparr>)
      else if idx = 1 then
        Some (ctx\<lparr>Dr1 := 0\<rparr>, d\<lparr>local_breakpoint_1 := 0, length_1 := 0, read_write_1 := 0\<rparr>)
      else if idx = 2 then
        Some (ctx\<lparr>Dr2 := 0\<rparr>, d\<lparr>local_breakpoint_2 := 0, length_2 := 0, read_write_2 := 0\<rparr>)
      else if idx = 3 then
        Some (ctx\<lparr>Dr3 := 0\<rparr>, d\<lparr>local_breakpoint_3 := 0, length_3 := 0, read_write_3 := 0\<rparr>)
      else None)"

definition bp_remove_from_ctx :: "HWBP \<Rightarrow> CONTEXT \<Rightarrow> BOOL \<times> HWBP \<times> CONTEXT" where
  "bp_remove_from_ctx bp ctx =
     (let d = dr7_of_flags (Dr7 ctx)
      in case remove_switch (index bp) ctx d of
           None \<Rightarrow> (FALSE, bp\<lparr>enabled := 0\<rparr>, ctx)
         | Some (ctx1, d1) \<Rightarrow> (TRUE, bp\<lparr>index := - 1\<rparr>, ctx1\<lparr>Dr7 := flags d1\<rparr>))"

section \<open>The operating-system primitives\<close>

text \<open>
  The Windows primitives are not part of the repository. They are modelled as stand-ins
  over a world that holds the debug registers of every thread and a log of the calls
  made. What each fallible primitive returns is chosen by the environment
  (\<open>os_results\<close>): whether \<open>OpenThread\<close> yields a handle, and the values returned by
  \<open>SuspendThread\<close>, \<open>GetThreadContext\<close> and \<open>SetThreadContext\<close>. A context read or write
  that reports success transfers all six debug registers; one that reports failure
  transfers nothing.
\<close>

datatype HANDLE = NULL | ThreadHandle "32 word"

datatype os_call =
    Call_OpenThread "32 word"
  | Call_SuspendThread HANDLE
  | Call_GetThreadContext HANDLE
  | Call_SetThreadContext HANDLE
  | Call_ResumeThread HANDLE
  | Call_CloseHandle HANDLE

record os_results =
  OpenThread_ok :: bool
  SuspendThread_ret :: "32 word"
  GetThreadContext_ret :: BOOL
  SetThreadContext_ret :: BOOL

record world =
  thread_ctx :: "32 word \<Rightarrow> CONTEXT"
  calls :: "os_call list"

definition log_call :: "os_call \<Rightarrow> world \<Rightarrow> world" where
  "log_call c w = w\<lparr>calls := calls w @ [c]\<rparr>"

definition OpenThread :: "os_results \<Rightarrow> 32 word \<Rightarrow> world \<Rightarrow> HANDLE \<times> world" where
  "OpenThread r tid w =
     (if OpenThread_ok r then ThreadHandle tid else NULL, log_call (Call_OpenThread tid) w)"

definition SuspendThread :: "os_results \<Rightarrow> HANDLE \<Rightarrow> world \<Rightarrow> 32 word \<times> world" where
  "SuspendThread r h w = (SuspendThread_ret r, log_call (Call_SuspendThread h) w)"

definition ResumeThread :: "HANDLE \<Rightarrow> world \<Rightarrow> world" where
  "ResumeThread h w = log_call (Call_ResumeThread h) w"

definition CloseHandle :: "HANDLE \<Rightarrow> world \<Rightarrow> world" where
  "CloseHandle h w = log_call (Call_CloseHandle h) w"

definition load_debug_registers :: "CONTEXT \<Rightarrow> CONTEXT \<Rightarrow> CONTEXT" where
  "load_debug_registers src dst =
     dst\<lparr>Dr0 := Dr0 src, Dr1 := Dr1 src, Dr2 := Dr2 src, Dr3 := Dr3 src,
         Dr6 := Dr6 src, Dr7 := Dr7 src\<rparr>"

definition GetThreadContext ::
  "os_results \<Rightarrow> HANDLE \<Rightarrow> CONTEXT \<Rightarrow> world \<Rightarrow> BOOL \<times> CONTEXT \<times> world" where
  "GetThreadContext r h ctx w =
     (case h of
        NULL \<Rightarrow> (FALSE, ctx, log_call (Call_GetThreadContext h) w)
      | ThreadHandle tid \<Rightarrow>
          if GetThreadContext_ret r = 0
          then (FALSE, ctx, log_call (Call_GetThreadContext h) w)
          else (GetThreadContext_ret r, load_debug_registers (thread_ctx w tid) ctx,
                log_call (Call_GetThreadContext h) w))"

definition SetThreadContext ::
  "os_results \<Rightarrow> HANDLE \<Rightarrow> CONTEXT \<Rightarrow> world \<Rightarrow> BOOL \<times> world" where
  "SetThreadContext r h ctx w =
     (case h of
        NULL \<Rightarrow> (FALSE, log_call (Call_SetThreadContext h) w)
      | ThreadHandle tid \<Rightarrow>
          if SetThreadContext_ret r = 0
          then (FALSE, log_call (Call_SetThreadContext h) w)
          else (SetThreadContext_ret r,
                log_call (Call_SetThreadContext h)
                  (w\<lparr>thread_ctx := (thread_ctx w)
                       (tid := load_debug_registers ctx (thread_ctx w tid))\<rparr>)))"

text \<open>
  Modelled from the spec: \<open>CONTEXT_DEBUG_REGISTERS\<close>, the flag that selects the debug registers
  for a context read or write (the "debug-register context" of the transaction's step 3),
  is declared in \<open>Windows.h\<close>, which is not part of the repository. The value is the one of
  the AMD64 headers; no property below depends on it.
\<close>

definition CONTEXT_DEBUG_REGISTERS :: "32 word" where
  "CONTEXT_DEBUG_REGISTERS = 0x100010"

text \<open>\<open>CONTEXT ctx = { 0 }; ctx.ContextFlags = CONTEXT_DEBUG_REGISTERS;\<close>\<close>

definition fresh_ctx :: CONTEXT where
  "fresh_ctx = \<lparr>ContextFlags = CONTEXT_DEBUG_REGISTERS,
                Dr0 = 0, Dr1 = 0, Dr2 = 0, Dr3 = 0, Dr6 = 0, Dr7 = 0\<rparr>"

section \<open>hwbp.c: enable and disable\<close>

text \<open>
  The result is the returned \<open>BOOL\<close>, the descriptor after the call (the code updates it
  in place through \<open>bp\<close>) and the world after the call.
\<close>

definition bp_enable :: "os_results \<Rightarrow> HWBP \<Rightarrow> world \<Rightarrow> BOOL \<times> HWBP \<times> world" where
  "bp_enable r bp w0 =
     (case OpenThread r (threadId bp) w0 of (hThread, w1) \<Rightarrow>
      if hThread = NULL then (FALSE, bp, w1)
      else case SuspendThread r hThread w1 of (susp, w2) \<Rightarrow>
      if susp = - 1 then (FALSE, bp, CloseHandle hThread w2)
      else case GetThreadContext r hThread fresh_ctx w2 of (got, ctx, w3) \<Rightarrow>
      if got = 0 then (FALSE, bp, CloseHandle hThread (ResumeThread hThread w3))
      else case bp_add_to_ctx bp ctx of (added, bp1, ctx1) \<Rightarrow>
      if added = 0 then (FALSE, bp1, CloseHandle hThread (ResumeThread hThread w3))
      else case SetThreadContext r hThread ctx1 w3 of (written, w4) \<Rightarrow>
      if written = 0 then (FALSE, bp1, CloseHandle hThread (ResumeThread hThread w4))
      else (TRUE, bp1\<lparr>enabled := 1\<rparr>, CloseHandle hThread (ResumeThread hThread w4)))"

definition bp_disable :: "os_results \<Rightarrow> HWBP \<Rightarrow> world \<Rightarrow> BOOL \<times> HWBP \<times> world" where
  "bp_disable r bp w0 =
     (case OpenThread r (threadId bp) w0 of (hThread, w1) \<Rightarrow>
      if hThread = NULL then (FALSE, bp, w1)
      else case SuspendThread r hThread w1 of (susp, w2) \<Rightarrow>
      if susp = - 1 then (FALSE, bp, CloseHandle hThread w2)
      else case GetThreadContext r hThread fresh_ctx w2 of (got, ctx, w3) \<Rightarrow>
      if got = 0 then (FALSE, bp, CloseHandle hThread (ResumeThread hThread w3))
      else case bp_remove_from_ctx bp ctx of (removed, bp1, ctx1) \<Rightarrow>
      if removed = 0 then (FALSE, bp1, CloseHandle hThread (ResumeThread hThread w3))
      else case SetThreadContext r hThread ctx1 w3 of (written, w4) \<Rightarrow>
      if written = 0 then (FALSE, bp1, CloseHandle hThread (ResumeThread hThread w4))
      else (TRUE, bp1\<lparr>enabled := 0\<rparr>, CloseHandle hThread (ResumeThread hThread w4)))"

section \<open>Vocabulary of the properties\<close>

subsection \<open>Calls made to the operating system\<close>

fun is_open :: "os_call \<Rightarrow> bool" where
  "is_open (Call_OpenThread _) = True"
| "is_open _ = False"

fun is_suspend :: "os_call \<Rightarrow> bool" where
  "is_suspend (Call_SuspendThread _) = True"
| "is_suspend _ = False"

fun is_resume :: "os_call \<Rightarrow> bool" where
  "is_resume (Call_ResumeThread _) = True"
| "is_resume _ = False"

fun is_close :: "os_call \<Rightarrow> bool" where
  "is_close (Call_CloseHandle _) = True"
| "is_close _ = False"

fun is_set_context :: "os_call \<Rightarrow> bool" where
  "is_set_context (Call_SetThreadContext _) = True"
| "is_set_context _ = False"

definition count_calls :: "(os_call \<Rightarrow> bool) \<Rightarrow> os_call list \<Rightarrow> nat" where
  "count_calls P cs = length (filter P cs)"

text \<open>The calls logged between two worlds.\<close>

definition new_calls :: "world \<Rightarrow> world \<Rightarrow> os_call list" where
  "new_calls w w' = drop (length (calls w)) (calls w')"

text \<open>The suspend step succeeded: a handle was acquired and \<open>SuspendThread\<close> did not return
  \<open>(DWORD)-1\<close>.\<close>

definition suspended :: "os_results \<Rightarrow> bool" where
  "suspended r \<longleftrightarrow> OpenThread_ok r \<and> SuspendThread_ret r \<noteq> - 1"

text \<open>The first list occurs in the second, in this order (not necessarily adjacent).\<close>

fun in_order :: "os_call list \<Rightarrow> os_call list \<Rightarrow> bool" where
  "in_order [] ys = True"
| "in_order (x # xs) [] = False"
| "in_order (x # xs) (y # ys) = (if x = y then in_order xs ys else in_order (x # xs) ys)"

text \<open>
  The calls \<open>cs\<close> of a transaction on thread \<open>tid\<close> are balanced. By kind: one acquisition
  attempt; one release and one suspend call exactly when a handle was acquired; one
  resume call exactly when the suspend step succeeded. By handle and order: the
  acquisition is for \<open>tid\<close>, and the suspend, the resume and the release are calls on the
  acquired handle, made in this order. Since each kind occurs at most once, the one
  resume is the resume of the suspended thread and the one release is the release of the
  acquired handle.
\<close>

definition calls_balanced :: "os_results \<Rightarrow> 32 word \<Rightarrow> os_call list \<Rightarrow> bool" where
  "calls_balanced r tid cs \<longleftrightarrow>
     count_calls is_open cs = 1 \<and>
     count_calls is_close cs = (if OpenThread_ok r then 1 else 0) \<and>
     count_calls is_suspend cs = (if OpenThread_ok r then 1 else 0) \<and>
     count_calls is_resume cs = (if suspended r then 1 else 0) \<and>
     in_order
       (if \<not> OpenThread_ok r then [Call_OpenThread tid]
        else if \<not> suspended r then
          [Call_OpenThread tid, Call_SuspendThread (ThreadHandle tid),
           Call_CloseHandle (ThreadHandle tid)]
        else
          [Call_OpenThread tid, Call_SuspendThread (ThreadHandle tid),
           Call_ResumeThread (ThreadHandle tid), Call_CloseHandle (ThreadHandle tid)])
       cs"

text \<open>The calls of one transaction, by the step at which it stops; \<open>mutated\<close> says whether
  the mutation step reported success.\<close>

definition expected_calls :: "os_results \<Rightarrow> 32 word \<Rightarrow> bool \<Rightarrow> os_call list" where
  "expected_calls r tid mutated =
     (let h = ThreadHandle tid in
      if \<not> OpenThread_ok r then [Call_OpenThread tid]
      else if SuspendThread_ret r = - 1 then
        [Call_OpenThread tid, Call_SuspendThread h, Call_CloseHandle h]
      else if GetThreadContext_ret r = 0 \<or> \<not> mutated then
        [Call_OpenThread tid, Call_SuspendThread h, Call_GetThreadContext h,
         Call_ResumeThread h, Call_CloseHandle h]
      else
        [Call_OpenThread tid, Call_SuspendThread h, Call_GetThreadContext h,
         Call_SetThreadContext h, Call_ResumeThread h, Call_CloseHandle h])"

subsection \<open>Slots of the control register\<close>

text \<open>The fields of slot \<open>i\<close> in the struct view, and its address register.\<close>

definition local_enable :: "nat \<Rightarrow> dr7 \<Rightarrow> 1 word" where
  "local_enable i d =
     (if i = 0 then local_breakpoint_0 d else if i = 1 then local_breakpoint_1 d
      else if i = 2 then local_breakpoint_2 d else local_breakpoint_3 d)"

definition read_write_field :: "nat \<Rightarrow> dr7 \<Rightarrow> 2 word" where
  "read_write_field i d =
     (if i = 0 then read_write_0 d else if i = 1 then read_write_1 d
      else if i = 2 then read_write_2 d else read_write_3 d)"

definition length_field :: "nat \<Rightarrow> dr7 \<Rightarrow> 2 word" where
  "length_field i d =
     (if i = 0 then length_0 d else if i = 1 then length_1 d
      else if i = 2 then length_2 d else length_3 d)"

definition address_register :: "nat \<Rightarrow> CONTEXT \<Rightarrow> 64 word" where
  "address_register i ctx =
     (if i = 0 then Dr0 ctx else if i = 1 then Dr1 ctx
      else if i = 2 then Dr2 ctx else Dr3 ctx)"

text \<open>The bit positions of DR7 owned by slot \<open>i\<close>: its local-enable bit, its two type bits
  and its two length bits.\<close>

definition slot_bits :: "nat \<Rightarrow> nat set" where
  "slot_bits i = {2 * i, 16 + 4 * i, 17 + 4 * i, 18 + 4 * i, 19 + 4 * i}"

text \<open>The struct view with the three fields of slot \<open>i\<close> blanked: two views that agree after
  blanking differ at most in those three fields.\<close>

definition without_slot :: "nat \<Rightarrow> dr7 \<Rightarrow> dr7" where
  "without_slot i d =
     (if i = 0 then d\<lparr>local_breakpoint_0 := 0, length_0 := 0, read_write_0 := 0\<rparr>
      else if i = 1 then d\<lparr>local_breakpoint_1 := 0, length_1 := 0, read_write_1 := 0\<rparr>
      else if i = 2 then d\<lparr>local_breakpoint_2 := 0, length_2 := 0, read_write_2 := 0\<rparr>
      else d\<lparr>local_breakpoint_3 := 0, length_3 := 0, read_write_3 := 0\<rparr>)"

text \<open>Between two contexts only slot \<open>i\<close> changed: every bit of DR7 outside \<open>slot_bits i\<close>, every
  field of the struct view other than slot \<open>i\<close>'s three, the other three address registers,
  DR6 and the context flags are the same.\<close>

definition only_slot_changed :: "nat \<Rightarrow> CONTEXT \<Rightarrow> CONTEXT \<Rightarrow> bool" where
  "only_slot_changed i ctx ctx' \<longleftrightarrow>
     i < 4 \<and>
     (\<forall>n<64. n \<notin> slot_bits i \<longrightarrow> bit (Dr7 ctx') n = bit (Dr7 ctx) n) \<and>
     without_slot i (dr7_of_flags (Dr7 ctx')) = without_slot i (dr7_of_flags (Dr7 ctx)) \<and>
     (\<forall>j<4. j \<noteq> i \<longrightarrow> address_register j ctx' = address_register j ctx) \<and>
     Dr6 ctx' = Dr6 ctx \<and> ContextFlags ctx' = ContextFlags ctx"

text \<open>A register file that contains no breakpoints: no slot is enabled, neither locally nor
  globally.\<close>

definition no_breakpoints :: "CONTEXT \<Rightarrow> bool" where
  "no_breakpoints ctx \<longleftrightarrow>
     (let d = dr7_of_flags (Dr7 ctx) in
      local_breakpoint_0 d = 0 \<and> global_breakpoint_0 d = 0 \<and>
      local_breakpoint_1 d = 0 \<and> global_breakpoint_1 d = 0 \<and>
      local_breakpoint_2 d = 0 \<and> global_breakpoint_2 d = 0 \<and>
      local_breakpoint_3 d = 0 \<and> global_breakpoint_3 d = 0)"

text \<open>The slot that the allocator picks in this register file holds no type and no length
  bits.\<close>

definition claimed_slot_blank :: "CONTEXT \<Rightarrow> bool" where
  "claimed_slot_blank ctx \<longleftrightarrow>
     (let d = dr7_of_flags (Dr7 ctx); i = unat (get_free_index d) in
      read_write_field i d = 0 \<and> length_field i d = 0)"

subsection \<open>The descriptor\<close>

text \<open>The slot is unassigned (\<open>index = -1\<close>) exactly when \<open>enabled\<close> is false.\<close>

definition descriptor_inv :: "HWBP \<Rightarrow> bool" where
  "descriptor_inv bp \<longleftrightarrow> (index bp = - 1 \<longleftrightarrow> enabled bp = 0)"

subsection \<open>Auxiliary: writing one slot, and the effect of a transaction on the world\<close>

text \<open>Setting the three fields of slot \<open>i\<close> in the struct view, the address register of slot
  \<open>i\<close>, and both together on a context, with DR7 re-encoded.\<close>

definition set_slot :: "nat \<Rightarrow> 1 word \<Rightarrow> 2 word \<Rightarrow> 2 word \<Rightarrow> dr7 \<Rightarrow> dr7" where
  "set_slot i a l r d =
     (if i = 0 then d\<lparr>local_breakpoint_0 := a, length_0 := l, read_write_0 := r\<rparr>
      else if i = 1 then d\<lparr>local_breakpoint_1 := a, length_1 := l, read_write_1 := r\<rparr>
      else if i = 2 then d\<lparr>local_breakpoint_2 := a, length_2 := l, read_write_2 := r\<rparr>
      else d\<lparr>local_breakpoint_3 := a, length_3 := l, read_write_3 := r\<rparr>)"

definition set_address :: "nat \<Rightarrow> 64 word \<Rightarrow> CONTEXT \<Rightarrow> CONTEXT" where
  "set_address i v ctx =
     (if i = 0 then ctx\<lparr>Dr0 := v\<rparr> else if i = 1 then ctx\<lparr>Dr1 := v\<rparr>
      else if i = 2 then ctx\<lparr>Dr2 := v\<rparr> else ctx\<lparr>Dr3 := v\<rparr>)"

definition write_slot :: "nat \<Rightarrow> 64 word \<Rightarrow> 1 word \<Rightarrow> 2 word \<Rightarrow> 2 word \<Rightarrow> CONTEXT \<Rightarrow> CONTEXT" where
  "write_slot i v a l r ctx =
     (set_address i v ctx)\<lparr>Dr7 := flags (set_slot i a l r (dr7_of_flags (Dr7 ctx)))\<rparr>"

text \<open>The context a successful read delivers, the world after a successful write, and the
  world after some more calls were logged.\<close>

definition ctx_read :: "world \<Rightarrow> 32 word \<Rightarrow> CONTEXT" where
  "ctx_read w tid = load_debug_registers (thread_ctx w tid) fresh_ctx"

definition ctx_written :: "CONTEXT \<Rightarrow> 32 word \<Rightarrow> world \<Rightarrow> world" where
  "ctx_written ctx tid w =
     w\<lparr>thread_ctx := (thread_ctx w)(tid := load_debug_registers ctx (thread_ctx w tid))\<rparr>"

definition logged :: "os_call list \<Rightarrow> world \<Rightarrow> world" where
  "logged cs w = w\<lparr>calls := calls w @ cs\<rparr>"

subsection \<open>Concrete inputs\<close>

text \<open>
  A thread whose debug registers are all zero, a descriptor as \<open>bp_create\<close> returns it
  (a 4-byte write watch on address \<open>0x1000\<close> of thread 7), an operating system where every
  primitive succeeds, and one where only the context write fails.
\<close>

definition ex_ctx :: CONTEXT where
  "ex_ctx = \<lparr>ContextFlags = 0, Dr0 = 0, Dr1 = 0, Dr2 = 0, Dr3 = 0, Dr6 = 0, Dr7 = 0\<rparr>"

definition ex_world :: world where
  "ex_world = \<lparr>thread_ctx = (\<lambda>_. ex_ctx), calls = []\<rparr>"

definition ex_bp :: HWBP where
  "ex_bp = \<lparr>target = 0x1000, threadId = 7, read_write = DATA_WRITEONLY, length_f = FOUR_BYTE,
            index = - 1, enabled = 0\<rparr>"

definition os_ok :: os_results where
  "os_ok = \<lparr>OpenThread_ok = True, SuspendThread_ret = 0, GetThreadContext_ret = 1,
            SetThreadContext_ret = 1\<rparr>"

definition os_write_fails :: os_results where
  "os_write_fails = os_ok\<lparr>SetThreadContext_ret := 0\<rparr>"

subsection \<open>Auxiliary: a range of bits of the raw register\<close>

definition span :: "nat \<Rightarrow> nat \<Rightarrow> 64 word \<Rightarrow> 64 word" where
  "span p q x = push_bit p (take_bit (q - p) (drop_bit p x))"

section \<open>The register codec\<close>

lemma bit_span: "bit (span p q x) n \<longleftrightarrow> p \<le> n \<and> n < q \<and> bit x n"
  by (auto simp: span_def bit_simps dest: bit_imp_le_length)

lemma bit_place:
  "bit (place pos (f :: 'a::len word)) n \<longleftrightarrow>
     pos \<le> n \<and> n < pos + LENGTH('a) \<and> n < 64 \<and> bit f (n - pos)"
  by (auto simp: place_def bit_simps dest: bit_imp_le_length)

lemma bit_bitfield:
  "bit (bitfield pos x :: 'a::len word) n \<longleftrightarrow> n < LENGTH('a) \<and> bit x (pos + n)"
  by (auto simp: bitfield_def bit_simps)

lemma place_bitfield_span:
  "place p (bitfield p x :: 'a::len word) = span p (p + LENGTH('a)) x"
  by (rule bit_word_eqI) (auto simp: bit_span bit_place bit_bitfield dest: bit_imp_le_length)

lemma place_bitfield_span1: "place p (bitfield p x :: 1 word) = span p (p + 1) x"
  by (simp add: place_bitfield_span)

lemma place_bitfield_span2: "place p (bitfield p x :: 2 word) = span p (p + 2) x"
  by (simp add: place_bitfield_span)

lemma place_bitfield_span32: "place p (bitfield p x :: 32 word) = span p (p + 32) x"
  by (simp add: place_bitfield_span)

lemma span_merge:
  "span p q x OR span q' r x = span p r x" if "q = q'" "p \<le> q" "q' \<le> r"
  using that by (intro bit_word_eqI) (auto simp: bit_or_iff bit_span)

lemma span_merge2:
  "span p q x OR span q' r x OR y = span p r x OR y" if "q = q'" "p \<le> q" "q' \<le> r"
  using that by (intro bit_word_eqI) (auto simp: bit_or_iff bit_span)

lemma span_all: "span 0 64 x = x"
  by (rule bit_word_eqI) (auto simp: bit_span)

lemmas span_simps = flags_def dr7_of_flags_def place_bitfield_span1 place_bitfield_span2
  place_bitfield_span32 span_merge span_merge2 span_all

lemma flags_decoded: "flags (dr7_of_flags x) = x"
  by (simp add: span_simps)

lemma bit_place1: "bit (place p (a :: 1 word)) n \<longleftrightarrow> n = p \<and> p < 64 \<and> bit a 0"
  by (auto simp: bit_place dest: bit_imp_le_length)

lemma bit_place2:
  "bit (place p (r :: 2 word)) n \<longleftrightarrow>
     n < 64 \<and> (n = p \<and> bit r 0 \<or> n = Suc p \<and> bit r 1)"
proof -
  have "n - p = 0 \<or> n - p = 1" if "p \<le> n" "n < p + 2"
    using that by arith
  then show ?thesis
    by (auto simp: bit_place dest: bit_imp_le_length)
qed

lemma slot0_frame:
  assumes "n \<notin> {0, 16, 17, 18, 19}"
  shows "bit (flags ((dr7_of_flags x)\<lparr>local_breakpoint_0 := a, length_0 := l,
           read_write_0 := r\<rparr>)) n = bit x n"
proof (cases "bit x n")
  case False
  with assms show ?thesis
    by (simp add: span_simps bit_or_iff bit_span bit_place1 bit_place2)
next
  case True
  then have "n < 64"
    by (auto dest: bit_imp_le_length)
  with assms have "1 \<le> n \<and> n < 16 \<or> 20 \<le> n \<and> n < 64"
    by simp arith
  with assms True show ?thesis
    by (auto simp: span_simps bit_or_iff bit_span bit_place1 bit_place2)
qed

lemma slot1_frame:
  assumes "n \<notin> {2, 20, 21, 22, 23}"
  shows "bit (flags ((dr7_of_flags x)\<lparr>local_breakpoint_1 := a, length_1 := l,
           read_write_1 := r\<rparr>)) n = bit x n"
proof (cases "bit x n")
  case False
  with assms show ?thesis
    by (simp add: span_simps bit_or_iff bit_span bit_place1 bit_place2)
next
  case True
  then have "n < 64"
    by (auto dest: bit_imp_le_length)
  with assms have "n < 2 \<or> 3 \<le> n \<and> n < 20 \<or> 24 \<le> n \<and> n < 64"
    by simp arith
  with assms True show ?thesis
    by (auto simp: span_simps bit_or_iff bit_span bit_place1 bit_place2)
qed

lemma slot2_frame:
  assumes "n \<notin> {4, 24, 25, 26, 27}"
  shows "bit (flags ((dr7_of_flags x)\<lparr>local_breakpoint_2 := a, length_2 := l,
           read_write_2 := r\<rparr>)) n = bit x n"
proof (cases "bit x n")
  case False
  with assms show ?thesis
    by (simp add: span_simps bit_or_iff bit_span bit_place1 bit_place2)
next
  case True
  then have "n < 64"
    by (auto dest: bit_imp_le_length)
  with assms have "n < 4 \<or> 5 \<le> n \<and> n < 24 \<or> 28 \<le> n \<and> n < 64"
    by simp arith
  with assms True show ?thesis
    by (auto simp: span_simps bit_or_iff bit_span bit_place1 bit_place2)
qed

lemma slot3_frame:
  assumes "n \<notin> {6, 28, 29, 30, 31}"
  shows "bit (flags ((dr7_of_flags x)\<lparr>local_breakpoint_3 := a, length_3 := l,
           read_write_3 := r\<rparr>)) n = bit x n"
proof (cases "bit x n")
  case False
  with assms show ?thesis
    by (simp add: span_simps bit_or_iff bit_span bit_place1 bit_place2)
next
  case True
  then have "n < 64"
    by (auto dest: bit_imp_le_length)
  with assms have "n < 6 \<or> 7 \<le> n \<and> n < 28 \<or> 32 \<le> n \<and> n < 64"
    by simp arith
  with assms True show ?thesis
    by (auto simp: span_simps bit_or_iff bit_span bit_place1 bit_place2)
qed

lemma bitfield_place_same:
  "p + LENGTH('a) \<le> 64 \<Longrightarrow> bitfield p (place p (f :: 'a::len word) OR y) = (f OR bitfield p y :: 'a word)"
  by (rule bit_word_eqI) (auto simp: bit_bitfield bit_place bit_or_iff)

lemma bitfield_place_other:
  "q + LENGTH('b) \<le> p \<or> p + LENGTH('a) \<le> q \<Longrightarrow>
   bitfield p (place q (g :: 'b::len word) OR y) = (bitfield p y :: 'a::len word)"
  by (rule bit_word_eqI) (auto simp: bit_bitfield bit_place bit_or_iff)

lemma bitfield_place_other_last:
  "q + LENGTH('b) \<le> p \<or> p + LENGTH('a) \<le> q \<Longrightarrow>
   bitfield p (place q (g :: 'b::len word)) = (0 :: 'a::len word)"
  by (rule bit_word_eqI) (auto simp: bit_bitfield bit_place bit_or_iff)

lemma bitfield_place_same_last:
  "p + LENGTH('a) \<le> 64 \<Longrightarrow> bitfield p (place p (f :: 'a::len word)) = f"
  by (rule bit_word_eqI) (auto simp: bit_bitfield bit_place bit_or_iff)

lemmas bitfield_place = bitfield_place_same bitfield_place_other bitfield_place_other_last
  bitfield_place_same_last

lemma decoded_flags: "dr7_of_flags (flags d) = d"
  unfolding dr7_of_flags_def flags_def
  by (simp add: bitfield_place)


lemma one_bit_word: "(w :: 1 word) = 0 \<or> w = 1"
proof -
  have "unat w < 2" using unsigned_less [of w, where ?'a = nat] by simp
  then have "unat w = unat (0 :: 1 word) \<or> unat w = unat (1 :: 1 word)" by auto
  then show ?thesis by (simp only: word_unat_eq_iff)
qed

lemma one_bit_neq0: "(w :: 1 word) \<noteq> 0 \<longleftrightarrow> w = 1"
  using one_bit_word [of w] by auto

lemma get_free_index_range: "get_free_index d \<in> {0, 1, 2, 3, - 1}"
  by (simp add: get_free_index_def)


text \<open>
  C3. Round trip of the codec: for every 64-bit value \<open>x\<close>, decoding \<open>x\<close> into the per-slot
  field view of the debug-control register and re-encoding that view gives \<open>x\<close> back.
\<close>

theorem codec_round_trip: "flags (dr7_of_flags x) = x"
  by (simp add: span_simps)

section \<open>The slot allocator\<close>

lemma all_lt4: "(\<forall>i<4. P i) \<longleftrightarrow> P 0 \<and> P 1 \<and> P 2 \<and> P (3::nat)"
proof -
  have "i < 4 \<longleftrightarrow> i = 0 \<or> i = 1 \<or> i = 2 \<or> i = 3" for i :: nat by arith
  then show ?thesis by auto
qed

lemma all_lt3: "(\<forall>i<3. P i) \<longleftrightarrow> P 0 \<and> P 1 \<and> P (2::nat)"
proof -
  have "i < 3 \<longleftrightarrow> i = 0 \<or> i = 1 \<or> i = 2" for i :: nat by arith
  then show ?thesis by auto
qed

lemma all_lt2: "(\<forall>i<2. P i) \<longleftrightarrow> P 0 \<and> P (1::nat)"
proof -
  have "i < 2 \<longleftrightarrow> i = 0 \<or> i = 1" for i :: nat by arith
  then show ?thesis by auto
qed

lemma all_lt1: "(\<forall>i<1. P i) \<longleftrightarrow> P (0::nat)"
  by auto

lemma all_lt0: "(\<forall>i<0. P i) \<longleftrightarrow> True" for P :: "nat \<Rightarrow> bool"
  by auto

lemmas all_lt = all_lt4 all_lt3 all_lt2 all_lt1 all_lt0

lemma local_enable_simps:
  "local_enable 0 d = local_breakpoint_0 d" "local_enable 1 d = local_breakpoint_1 d"
  "local_enable 2 d = local_breakpoint_2 d" "local_enable 3 d = local_breakpoint_3 d"
  by (simp_all add: local_enable_def)

text \<open>
  C2. The allocator returns the lowest index in \<open>0..3\<close> whose local-enable bit is 0, and
  \<open>-1\<close> (exhausted) exactly when all four local-enable bits are 1; its result is the same
  for any two register views that agree on the four local-enable bits, whatever the
  global-enable bits and the other fields are.
\<close>

theorem get_free_index_lowest_free:
  "(get_free_index d = - 1 \<longleftrightarrow> (\<forall>i<4. local_enable i d = 1)) \<and>
   (\<forall>i<4. get_free_index d = of_nat i \<longleftrightarrow>
       local_enable i d = 0 \<and> (\<forall>j<i. local_enable j d = 1)) \<and>
   ((\<forall>i<4. local_enable i d' = local_enable i d) \<longrightarrow> get_free_index d' = get_free_index d)"
  using one_bit_word [of "local_breakpoint_0 d"] one_bit_word [of "local_breakpoint_1 d"]
    one_bit_word [of "local_breakpoint_2 d"] one_bit_word [of "local_breakpoint_3 d"]
  apply (simp only: all_lt local_enable_simps)
  apply (auto simp: get_free_index_def)
  done

theorem get_free_index_lowest_free_witness:
  "get_free_index (dr7_of_flags 0x35) = 3 \<and>
   local_enable 0 (dr7_of_flags 0x35) = 1 \<and> local_enable 1 (dr7_of_flags 0x35) = 1 \<and>
   local_enable 2 (dr7_of_flags 0x35) = 1 \<and> local_enable 3 (dr7_of_flags 0x35) = 0 \<and>
   get_free_index (dr7_of_flags 0xFFFFFFBF) = get_free_index (dr7_of_flags 0x35)"
  using get_free_index_lowest_free [of "dr7_of_flags 0x35" "dr7_of_flags 0xFFFFFFBF"]
  by (simp add: all_lt local_enable_def get_free_index_def dr7_of_flags_def bitfield_def)

text \<open>The same on the raw register: the local-enable bit of slot \<open>i\<close> is bit \<open>2 * i\<close>, and the
  allocator's result depends on bits 0, 2, 4 and 6 only.\<close>

lemma one_bit_field_zero: "(bitfield p x :: 1 word) = 0 \<longleftrightarrow> \<not> bit x p"
proof -
  have "bit (bitfield p x :: 1 word) 0 = bit x p"
    by (simp add: bit_bitfield)
  then show ?thesis
    using one_bit_word [of "bitfield p x"] by auto
qed

lemma get_free_index_raw:
  "get_free_index (dr7_of_flags x) =
     (if \<not> bit x 0 then 0 else if \<not> bit x 2 then 1 else if \<not> bit x 4 then 2
      else if \<not> bit x 6 then 3 else - 1)"
  by (simp add: get_free_index_def dr7_of_flags_def one_bit_field_zero)

lemma get_free_index_raw_bits:
  "bit y 0 = bit x 0 \<Longrightarrow> bit y 2 = bit x 2 \<Longrightarrow> bit y 4 = bit x 4 \<Longrightarrow> bit y 6 = bit x 6 \<Longrightarrow>
   get_free_index (dr7_of_flags y) = get_free_index (dr7_of_flags x)"
  by (simp add: get_free_index_raw)

section \<open>Slot mutation\<close>

lemma lt4_cases: "i < 4 \<Longrightarrow> i = 0 \<or> i = 1 \<or> i = 2 \<or> i = (3::nat)"
  by arith

lemma bp_add_to_ctx_eq:
  "bp_add_to_ctx bp ctx =
     (let idx = get_free_index (dr7_of_flags (Dr7 ctx)) in
      if idx = - 1 then (FALSE, bp, ctx)
      else (TRUE, bp\<lparr>index := idx\<rparr>,
            write_slot (unat idx) (target bp) 1
              (word_of_int (BP_LENGTH_val (length_f bp)))
              (word_of_int (BP_READ_WRITE_val (read_write bp))) ctx))"
  by (simp add: bp_add_to_ctx_def get_free_index_def add_switch_def write_slot_def
      set_slot_def set_address_def Let_def)

lemma bp_remove_from_ctx_eq:
  "bp_remove_from_ctx bp ctx =
     (if index bp \<in> {0, 1, 2, 3}
      then (TRUE, bp\<lparr>index := - 1\<rparr>, write_slot (unat (index bp)) 0 0 0 0 ctx)
      else (FALSE, bp\<lparr>enabled := 0\<rparr>, ctx))"
  by (auto simp: bp_remove_from_ctx_def remove_switch_def write_slot_def
      set_slot_def set_address_def Let_def)

lemma slot_frame:
  assumes "i < 4" "n \<notin> slot_bits i"
  shows "bit (flags (set_slot i a l r (dr7_of_flags x))) n = bit x n"
  using lt4_cases [OF assms(1)] assms(2)
  by (auto simp: set_slot_def slot_bits_def slot0_frame slot1_frame slot2_frame slot3_frame)

lemma without_set_slot: "without_slot i (set_slot i a l r d) = without_slot i d"
  by (simp add: without_slot_def set_slot_def)

lemma write_slot_frame:
  "i < 4 \<Longrightarrow> only_slot_changed i ctx (write_slot i v a l r ctx)"
  unfolding only_slot_changed_def write_slot_def
  apply (intro conjI)
  apply simp
  apply (simp add: slot_frame)
  apply (simp add: decoded_flags without_set_slot)
  apply (simp add: set_address_def address_register_def)
  apply (simp add: set_address_def)
  apply (simp add: set_address_def)
  done

lemma set_slot_fields:
  "i < 4 \<Longrightarrow> local_enable i (set_slot i a l r d) = a"
  "i < 4 \<Longrightarrow> length_field i (set_slot i a l r d) = l"
  "i < 4 \<Longrightarrow> read_write_field i (set_slot i a l r d) = r"
  by (auto simp: local_enable_def length_field_def read_write_field_def set_slot_def)

lemma write_slot_address: "i < 4 \<Longrightarrow> address_register i (write_slot i v a l r ctx) = v"
  by (auto simp: write_slot_def set_address_def address_register_def)

lemma write_slot_Dr7:
  "dr7_of_flags (Dr7 (write_slot i v a l r ctx)) = set_slot i a l r (dr7_of_flags (Dr7 ctx))"
  by (simp add: write_slot_def decoded_flags)


lemma get_free_index_lt4: "get_free_index d \<noteq> - 1 \<Longrightarrow> unat (get_free_index d) < 4"
  by (auto simp: get_free_index_def split: if_splits)

section \<open>Transactions\<close>

lemmas os_defs = OpenThread_def SuspendThread_def ResumeThread_def CloseHandle_def
  GetThreadContext_def SetThreadContext_def log_call_def

lemma bp_enable_eq:
  "bp_enable r bp w =
     (case bp_add_to_ctx bp (ctx_read w (threadId bp)) of (added, bp1, ctx1) \<Rightarrow>
      let w' = logged (expected_calls r (threadId bp) (added \<noteq> 0)) w in
      if \<not> OpenThread_ok r \<or> SuspendThread_ret r = - 1 \<or> GetThreadContext_ret r = 0
      then (FALSE, bp, w')
      else if added = 0 \<or> SetThreadContext_ret r = 0 then (FALSE, bp1, w')
      else (TRUE, bp1\<lparr>enabled := 1\<rparr>, ctx_written ctx1 (threadId bp) w'))"
  by (auto simp: bp_enable_def os_defs expected_calls_def ctx_read_def ctx_written_def
      logged_def Let_def FALSE_def TRUE_def split: prod.splits)

lemma bp_disable_eq:
  "bp_disable r bp w =
     (case bp_remove_from_ctx bp (ctx_read w (threadId bp)) of (removed, bp1, ctx1) \<Rightarrow>
      let w' = logged (expected_calls r (threadId bp) (removed \<noteq> 0)) w in
      if \<not> OpenThread_ok r \<or> SuspendThread_ret r = - 1 \<or> GetThreadContext_ret r = 0
      then (FALSE, bp, w')
      else if removed = 0 \<or> SetThreadContext_ret r = 0 then (FALSE, bp1, w')
      else (TRUE, bp1\<lparr>enabled := 0\<rparr>, ctx_written ctx1 (threadId bp) w'))"
  by (auto simp: bp_disable_def os_defs expected_calls_def ctx_read_def ctx_written_def
      logged_def Let_def FALSE_def TRUE_def split: prod.splits)


lemmas ex_defs = ex_ctx_def ex_world_def ex_bp_def os_ok_def os_write_fails_def

lemmas run_defs = bp_enable_def bp_disable_def os_defs bp_add_to_ctx_def bp_remove_from_ctx_def
  add_switch_def remove_switch_def get_free_index_def dr7_of_flags_def flags_def bitfield_def
  place_def fresh_ctx_def load_debug_registers_def TRUE_def FALSE_def

section \<open>Call symmetry of the transactions\<close>

lemma new_calls_logged: "new_calls w (logged cs w) = cs" "calls (logged cs w) = calls w @ cs"
  "new_calls w (ctx_written c t (logged cs w)) = cs"
  "calls (ctx_written c t (logged cs w)) = calls w @ cs"
  by (simp_all add: new_calls_def logged_def ctx_written_def)

lemma expected_calls_balanced: "calls_balanced r tid (expected_calls r tid m)"
  by (simp add: calls_balanced_def expected_calls_def count_calls_def suspended_def Let_def)

lemma bp_enable_new_calls:
  assumes "bp_enable r bp w = (res, bp', w')"
  shows "calls w' = calls w @ new_calls w w'"
    and "new_calls w w' = expected_calls r (threadId bp)
           (get_free_index (dr7_of_flags (Dr7 (thread_ctx w (threadId bp)))) \<noteq> - 1)"
  using assms
  by (auto simp: bp_enable_eq bp_add_to_ctx_eq Let_def new_calls_logged TRUE_def FALSE_def
      ctx_read_def load_debug_registers_def split: if_splits)

lemma bp_disable_new_calls:
  assumes "bp_disable r bp w = (res, bp', w')"
  shows "calls w' = calls w @ new_calls w w'"
    and "new_calls w w' = expected_calls r (threadId bp) (index bp \<in> {0, 1, 2, 3})"
  using assms
  by (auto simp: bp_disable_eq bp_remove_from_ctx_eq Let_def new_calls_logged TRUE_def
      FALSE_def split: if_splits)

text \<open>
  C1. Every transaction run by \<open>bp_enable\<close> or \<open>bp_disable\<close> only adds calls to the log, and
  the calls it adds are exactly those of \<open>expected_calls\<close> for the descriptor's thread: on
  every path (whatever the context read, the mutation and the context write did) the
  handle acquired for the thread is released exactly once, as the last call, and if the
  suspend step succeeded the suspended thread is resumed exactly once, after the suspend
  and before the release; without a handle nothing is released, and without a
  successful suspend nothing is resumed.
\<close>

theorem transaction_symmetry:
  "(bp_enable r bp w = (res, bp', w') \<longrightarrow>
      calls w' = calls w @ new_calls w w' \<and>
      new_calls w w' = expected_calls r (threadId bp)
        (get_free_index (dr7_of_flags (Dr7 (thread_ctx w (threadId bp)))) \<noteq> - 1) \<and>
      calls_balanced r (threadId bp) (new_calls w w')) \<and>
   (bp_disable r bp w = (res, bp', w') \<longrightarrow>
      calls w' = calls w @ new_calls w w' \<and>
      new_calls w w' = expected_calls r (threadId bp) (index bp \<in> {0, 1, 2, 3}) \<and>
      calls_balanced r (threadId bp) (new_calls w w'))"
  by (simp add: bp_enable_new_calls bp_disable_new_calls expected_calls_balanced)

theorem transaction_symmetry_witness:
  "bp_enable os_write_fails ex_bp ex_world =
     (FALSE, ex_bp\<lparr>index := 0\<rparr>, ex_world\<lparr>calls := [Call_OpenThread 7, Call_SuspendThread (ThreadHandle 7),
        Call_GetThreadContext (ThreadHandle 7), Call_SetThreadContext (ThreadHandle 7),
        Call_ResumeThread (ThreadHandle 7), Call_CloseHandle (ThreadHandle 7)]\<rparr>) \<and>
   new_calls ex_world (ex_world\<lparr>calls := [Call_OpenThread 7, Call_SuspendThread (ThreadHandle 7),
        Call_GetThreadContext (ThreadHandle 7), Call_SetThreadContext (ThreadHandle 7),
        Call_ResumeThread (ThreadHandle 7), Call_CloseHandle (ThreadHandle 7)]\<rparr>) = [Call_OpenThread 7, Call_SuspendThread (ThreadHandle 7),
        Call_GetThreadContext (ThreadHandle 7), Call_SetThreadContext (ThreadHandle 7),
        Call_ResumeThread (ThreadHandle 7), Call_CloseHandle (ThreadHandle 7)] \<and>
   calls_balanced os_write_fails 7 [Call_OpenThread 7, Call_SuspendThread (ThreadHandle 7),
        Call_GetThreadContext (ThreadHandle 7), Call_SetThreadContext (ThreadHandle 7),
        Call_ResumeThread (ThreadHandle 7), Call_CloseHandle (ThreadHandle 7)] \<and>
   bp_disable (os_ok\<lparr>SuspendThread_ret := - 1\<rparr>) (ex_bp\<lparr>index := 0, enabled := 1\<rparr>) ex_world =
     (FALSE, ex_bp\<lparr>index := 0, enabled := 1\<rparr>, ex_world\<lparr>calls := [Call_OpenThread 7, Call_SuspendThread (ThreadHandle 7),
        Call_CloseHandle (ThreadHandle 7)]\<rparr>) \<and>
   new_calls ex_world (ex_world\<lparr>calls := [Call_OpenThread 7, Call_SuspendThread (ThreadHandle 7),
        Call_CloseHandle (ThreadHandle 7)]\<rparr>) = [Call_OpenThread 7, Call_SuspendThread (ThreadHandle 7),
        Call_CloseHandle (ThreadHandle 7)] \<and>
   calls_balanced (os_ok\<lparr>SuspendThread_ret := - 1\<rparr>) 7 [Call_OpenThread 7, Call_SuspendThread (ThreadHandle 7),
        Call_CloseHandle (ThreadHandle 7)]"
proof -
  have enable: "bp_enable os_write_fails ex_bp ex_world =
     (FALSE, ex_bp\<lparr>index := 0\<rparr>, ex_world\<lparr>calls := [Call_OpenThread 7, Call_SuspendThread (ThreadHandle 7),
        Call_GetThreadContext (ThreadHandle 7), Call_SetThreadContext (ThreadHandle 7),
        Call_ResumeThread (ThreadHandle 7), Call_CloseHandle (ThreadHandle 7)]\<rparr>)"
    by (simp add: ex_defs run_defs)
  have disable:
    "bp_disable (os_ok\<lparr>SuspendThread_ret := - 1\<rparr>) (ex_bp\<lparr>index := 0, enabled := 1\<rparr>) ex_world =
     (FALSE, ex_bp\<lparr>index := 0, enabled := 1\<rparr>, ex_world\<lparr>calls := [Call_OpenThread 7, Call_SuspendThread (ThreadHandle 7),
        Call_CloseHandle (ThreadHandle 7)]\<rparr>)"
    by (simp add: ex_defs run_defs)
  have new: "new_calls ex_world (ex_world\<lparr>calls := cs\<rparr>) = cs" for cs
    by (simp add: new_calls_def ex_world_def)
  from transaction_symmetry [THEN conjunct1, rule_format, OF enable]
  have "calls_balanced os_write_fails (threadId ex_bp) (new_calls ex_world (ex_world\<lparr>calls := [Call_OpenThread 7, Call_SuspendThread (ThreadHandle 7),
        Call_GetThreadContext (ThreadHandle 7), Call_SetThreadContext (ThreadHandle 7),
        Call_ResumeThread (ThreadHandle 7), Call_CloseHandle (ThreadHandle 7)]\<rparr>))"
    by blast
  then have b1: "calls_balanced os_write_fails 7 [Call_OpenThread 7, Call_SuspendThread (ThreadHandle 7),
        Call_GetThreadContext (ThreadHandle 7), Call_SetThreadContext (ThreadHandle 7),
        Call_ResumeThread (ThreadHandle 7), Call_CloseHandle (ThreadHandle 7)]"
    by (simp add: new ex_bp_def)
  from transaction_symmetry [THEN conjunct2, rule_format, OF disable]
  have "calls_balanced (os_ok\<lparr>SuspendThread_ret := - 1\<rparr>) (threadId (ex_bp\<lparr>index := 0, enabled := 1\<rparr>))
          (new_calls ex_world (ex_world\<lparr>calls := [Call_OpenThread 7, Call_SuspendThread (ThreadHandle 7),
        Call_CloseHandle (ThreadHandle 7)]\<rparr>))"
    by blast
  then have b2: "calls_balanced (os_ok\<lparr>SuspendThread_ret := - 1\<rparr>) 7 [Call_OpenThread 7, Call_SuspendThread (ThreadHandle 7),
        Call_CloseHandle (ThreadHandle 7)]"
    by (simp add: new ex_bp_def)
  from enable disable b1 b2 show ?thesis
    by (simp add: new)
qed

text \<open>The predicate tells transactions apart by handle and by order: a run that suspends,
  resumes and closes the null handle, and one that resumes before it suspends, are not
  balanced although they make one call of each kind.\<close>

lemma calls_balanced_rejects:
  "\<not> calls_balanced os_ok 7
       [Call_OpenThread 7, Call_SuspendThread NULL, Call_ResumeThread NULL,
        Call_CloseHandle NULL] \<and>
   \<not> calls_balanced os_ok 7
       [Call_OpenThread 7, Call_ResumeThread (ThreadHandle 8),
        Call_SuspendThread (ThreadHandle 7), Call_CloseHandle (ThreadHandle 8)] \<and>
   \<not> calls_balanced os_ok 7
       [Call_OpenThread 7, Call_ResumeThread (ThreadHandle 7),
        Call_SuspendThread (ThreadHandle 7), Call_CloseHandle (ThreadHandle 7)]"
  by (simp add: calls_balanced_def count_calls_def suspended_def os_ok_def)


section \<open>Frame of the slot mutations\<close>

text \<open>
  C4. When \<open>bp_add_to_ctx\<close> claims slot \<open>i\<close> (the index it records) or
  \<open>bp_remove_from_ctx\<close> clears slot \<open>i\<close> (the recorded index), only slot \<open>i\<close> changes: every bit
  of DR7 outside slot \<open>i\<close>'s local-enable bit and type and length fields is unchanged (the
  bits of the other slots, the global-enable bits, the reserved bits), and so are the other
  three address registers. When either operation fails the context is unchanged.
\<close>

theorem slot_mutation_frame:
  "(bp_add_to_ctx bp ctx = (res, bp', ctx') \<longrightarrow>
      (if res = 0 then ctx' = ctx else only_slot_changed (unat (index bp')) ctx ctx')) \<and>
   (bp_remove_from_ctx bp ctx = (res, bp', ctx') \<longrightarrow>
      (if res = 0 then ctx' = ctx else only_slot_changed (unat (index bp)) ctx ctx'))"
  by (auto simp: bp_add_to_ctx_eq bp_remove_from_ctx_eq Let_def TRUE_def FALSE_def
      write_slot_frame get_free_index_lt4 split: if_splits)

theorem slot_mutation_frame_witness:
  "bp_add_to_ctx ex_bp (ex_ctx\<lparr>Dr7 := 0x35\<rparr>) =
     (TRUE, ex_bp\<lparr>index := 3\<rparr>, ex_ctx\<lparr>Dr3 := 0x1000, Dr7 := 0xD0000075\<rparr>) \<and>
   only_slot_changed 3 (ex_ctx\<lparr>Dr7 := 0x35\<rparr>) (ex_ctx\<lparr>Dr3 := 0x1000, Dr7 := 0xD0000075\<rparr>) \<and>
   bp_remove_from_ctx (ex_bp\<lparr>index := 2\<rparr>) (ex_ctx\<lparr>Dr2 := 0x2000, Dr7 := 0xFFFFFFFF\<rparr>) =
     (TRUE, ex_bp, ex_ctx\<lparr>Dr2 := 0, Dr7 := 0xF0FFFFEF\<rparr>) \<and>
   only_slot_changed 2 (ex_ctx\<lparr>Dr2 := 0x2000, Dr7 := 0xFFFFFFFF\<rparr>)
     (ex_ctx\<lparr>Dr2 := 0, Dr7 := 0xF0FFFFEF\<rparr>)"
proof -
  have add: "bp_add_to_ctx ex_bp (ex_ctx\<lparr>Dr7 := 0x35\<rparr>) =
     (TRUE, ex_bp\<lparr>index := 3\<rparr>, ex_ctx\<lparr>Dr3 := 0x1000, Dr7 := 0xD0000075\<rparr>)"
    by (simp add: ex_defs run_defs)
  have remove: "bp_remove_from_ctx (ex_bp\<lparr>index := 2\<rparr>) (ex_ctx\<lparr>Dr2 := 0x2000, Dr7 := 0xFFFFFFFF\<rparr>) =
     (TRUE, ex_bp, ex_ctx\<lparr>Dr2 := 0, Dr7 := 0xF0FFFFEF\<rparr>)"
    by (simp add: ex_defs run_defs)
  from slot_mutation_frame [of ex_bp "ex_ctx\<lparr>Dr7 := 0x35\<rparr>" TRUE "ex_bp\<lparr>index := 3\<rparr>"
      "ex_ctx\<lparr>Dr3 := 0x1000, Dr7 := 0xD0000075\<rparr>"]
    slot_mutation_frame [of "ex_bp\<lparr>index := 2\<rparr>" "ex_ctx\<lparr>Dr2 := 0x2000, Dr7 := 0xFFFFFFFF\<rparr>"
      TRUE ex_bp "ex_ctx\<lparr>Dr2 := 0, Dr7 := 0xF0FFFFEF\<rparr>"]
    add remove
  show ?thesis by (simp add: TRUE_def ex_bp_def)
qed


section \<open>The claimed slot\<close>

lemma add_switch_defined:
  "idx \<in> {0, 1, 2, 3} \<Longrightarrow> add_switch idx bp ctx d \<noteq> None"
  by (auto simp: add_switch_def)

text \<open>
  C10. \<open>get_free_index\<close> returns one of \<open>-1, 0, 1, 2, 3\<close>; so whenever \<open>bp_add_to_ctx\<close> passes
  the test for \<open>-1\<close> its switch does not reach the default branch; and when
  \<open>bp_add_to_ctx\<close> succeeds, the recorded index is one of \<open>0..3\<close>, it is the free index the
  allocator returned, the address register of that slot holds the descriptor's target
  and the local-enable bit of that slot is set.
\<close>

theorem add_reaches_no_default:
  "get_free_index d \<in> {- 1, 0, 1, 2, 3} \<and>
   (get_free_index d \<noteq> - 1 \<longrightarrow> add_switch (get_free_index d) bp ctx d \<noteq> None) \<and>
   (bp_add_to_ctx bp ctx = (res, bp', ctx') \<longrightarrow> res \<noteq> 0 \<longrightarrow>
      index bp' \<in> {0, 1, 2, 3} \<and>
      index bp' = get_free_index (dr7_of_flags (Dr7 ctx)) \<and>
      address_register (unat (index bp')) ctx' = target bp \<and>
      local_enable (unat (index bp')) (dr7_of_flags (Dr7 ctx')) = 1)"
proof (intro conjI impI)
  show range: "get_free_index d \<in> {- 1, 0, 1, 2, 3}" for d
    using get_free_index_range [of d] by auto
  show "add_switch (get_free_index d) bp ctx d \<noteq> None" if "get_free_index d \<noteq> - 1"
    using that range [of d] by (intro add_switch_defined) auto
  assume run: "bp_add_to_ctx bp ctx = (res, bp', ctx')" and ok: "res \<noteq> 0"
  let ?idx = "get_free_index (dr7_of_flags (Dr7 ctx))"
  from run ok have free: "?idx \<noteq> - 1" and idx: "index bp' = ?idx"
    and ctx': "ctx' = write_slot (unat ?idx) (target bp) 1
        (word_of_int (BP_LENGTH_val (length_f bp)))
        (word_of_int (BP_READ_WRITE_val (read_write bp))) ctx"
    by (auto simp: bp_add_to_ctx_eq Let_def FALSE_def split: if_splits)
  from free have lt: "unat ?idx < 4"
    by (rule get_free_index_lt4)
  show "index bp' = ?idx" by (rule idx)
  show "index bp' \<in> {0, 1, 2, 3}"
    using range [of "dr7_of_flags (Dr7 ctx)"] free idx by auto
  show "address_register (unat (index bp')) ctx' = target bp"
    using lt by (simp add: idx ctx' write_slot_address)
  show "local_enable (unat (index bp')) (dr7_of_flags (Dr7 ctx')) = 1"
    using lt by (simp add: idx ctx' write_slot_Dr7 set_slot_fields)
qed

theorem add_reaches_no_default_witness:
  "get_free_index (dr7_of_flags 0x15) = 3 \<and>
   add_switch (get_free_index (dr7_of_flags 0x15)) ex_bp (ex_ctx\<lparr>Dr7 := 0x15\<rparr>) (dr7_of_flags 0x15)
     \<noteq> None \<and>
   bp_add_to_ctx ex_bp (ex_ctx\<lparr>Dr7 := 0x15\<rparr>) =
     (TRUE, ex_bp\<lparr>index := 3\<rparr>, ex_ctx\<lparr>Dr3 := 0x1000, Dr7 := 0xD0000055\<rparr>) \<and>
   address_register (unat (3 :: 8 word)) (ex_ctx\<lparr>Dr3 := 0x1000, Dr7 := 0xD0000055\<rparr>) = 0x1000 \<and>
   local_enable (unat (3 :: 8 word)) (dr7_of_flags 0xD0000055) = 1"
proof -
  have free: "get_free_index (dr7_of_flags 0x15) = 3"
    by (simp add: get_free_index_def dr7_of_flags_def bitfield_def)
  have run: "bp_add_to_ctx ex_bp (ex_ctx\<lparr>Dr7 := 0x15\<rparr>) =
     (TRUE, ex_bp\<lparr>index := 3\<rparr>, ex_ctx\<lparr>Dr3 := 0x1000, Dr7 := 0xD0000055\<rparr>)"
    by (simp add: ex_defs run_defs)
  from add_reaches_no_default [of "dr7_of_flags 0x15" ex_bp "ex_ctx\<lparr>Dr7 := 0x15\<rparr>" TRUE
      "ex_bp\<lparr>index := 3\<rparr>" "ex_ctx\<lparr>Dr3 := 0x1000, Dr7 := 0xD0000055\<rparr>"] free run
  show ?thesis by (simp add: TRUE_def ex_bp_def)
qed

lemma uint_length_code: "uint (word_of_int (BP_LENGTH_val l) :: 2 word) = BP_LENGTH_val l"
  by (cases l) simp_all

lemma Dr7_load: "Dr7 (load_debug_registers a b) = Dr7 a"
  by (simp add: load_debug_registers_def)

lemma thread_ctx_written:
  "thread_ctx (ctx_written c t w) t = load_debug_registers c (thread_ctx w t)"
  "thread_ctx (logged cs w) = thread_ctx w"
  by (simp_all add: ctx_written_def logged_def)

text \<open>
  C9. The length enumeration maps the region sizes to the hardware codes 1 byte to 0,
  2 bytes to 1, 8 bytes to 2 and 4 bytes to 3, and a successful \<open>bp_enable\<close> leaves exactly
  this code in the 2-bit length field of the claimed slot of the thread's DR7.
\<close>

theorem length_code_written:
  "BP_LENGTH_bytes ONE_BYTE = 1 \<and> BP_LENGTH_val ONE_BYTE = 0 \<and>
   BP_LENGTH_bytes TWO_BYTE = 2 \<and> BP_LENGTH_val TWO_BYTE = 1 \<and>
   BP_LENGTH_bytes EIGHT_BYTE = 8 \<and> BP_LENGTH_val EIGHT_BYTE = 2 \<and>
   BP_LENGTH_bytes FOUR_BYTE = 4 \<and> BP_LENGTH_val FOUR_BYTE = 3 \<and>
   (bp_enable r bp w = (res, bp', w') \<longrightarrow> res \<noteq> 0 \<longrightarrow>
      uint (length_field (unat (index bp')) (dr7_of_flags (Dr7 (thread_ctx w' (threadId bp)))))
        = BP_LENGTH_val (length_f bp))"
proof -
  have "uint (length_field (unat (index bp')) (dr7_of_flags (Dr7 (thread_ctx w' (threadId bp)))))
        = BP_LENGTH_val (length_f bp)"
    if run: "bp_enable r bp w = (res, bp', w')" and ok: "res \<noteq> 0"
  proof -
    let ?ctx = "ctx_read w (threadId bp)"
    let ?idx = "get_free_index (dr7_of_flags (Dr7 ?ctx))"
    let ?ctx1 = "write_slot (unat ?idx) (target bp) 1
        (word_of_int (BP_LENGTH_val (length_f bp)))
        (word_of_int (BP_READ_WRITE_val (read_write bp))) ?ctx"
    from run ok have free: "?idx \<noteq> - 1" and idx: "index bp' = ?idx"
      and w': "thread_ctx w' (threadId bp) = load_debug_registers ?ctx1 (thread_ctx w (threadId bp))"
      by (auto simp: bp_enable_eq bp_add_to_ctx_eq Let_def FALSE_def thread_ctx_written
          split: if_splits)
    from free have "unat ?idx < 4"
      by (rule get_free_index_lt4)
    then show ?thesis
      by (simp add: idx w' Dr7_load write_slot_Dr7 set_slot_fields uint_length_code)
  qed
  then show ?thesis by simp
qed

theorem length_code_written_witness:
  "bp_enable os_ok ex_bp ex_world =
     (TRUE, ex_bp\<lparr>index := 0, enabled := 1\<rparr>,
      \<lparr>thread_ctx = (\<lambda>_. ex_ctx)(7 := ex_ctx\<lparr>Dr0 := 0x1000, Dr7 := 0xD0001\<rparr>),
       calls = [Call_OpenThread 7, Call_SuspendThread (ThreadHandle 7),
        Call_GetThreadContext (ThreadHandle 7), Call_SetThreadContext (ThreadHandle 7),
        Call_ResumeThread (ThreadHandle 7), Call_CloseHandle (ThreadHandle 7)]\<rparr>) \<and>
   uint (length_field (unat (0 :: 8 word)) (dr7_of_flags 0xD0001)) = 3"
proof -
  have run: "bp_enable os_ok ex_bp ex_world =
     (TRUE, ex_bp\<lparr>index := 0, enabled := 1\<rparr>,
      \<lparr>thread_ctx = (\<lambda>_. ex_ctx)(7 := ex_ctx\<lparr>Dr0 := 0x1000, Dr7 := 0xD0001\<rparr>),
       calls = [Call_OpenThread 7, Call_SuspendThread (ThreadHandle 7),
        Call_GetThreadContext (ThreadHandle 7), Call_SetThreadContext (ThreadHandle 7),
        Call_ResumeThread (ThreadHandle 7), Call_CloseHandle (ThreadHandle 7)]\<rparr>)"
    by (simp add: ex_defs run_defs)
  from length_code_written [of os_ok ex_bp ex_world TRUE "ex_bp\<lparr>index := 0, enabled := 1\<rparr>"
      "\<lparr>thread_ctx = (\<lambda>_. ex_ctx)(7 := ex_ctx\<lparr>Dr0 := 0x1000, Dr7 := 0xD0001\<rparr>),
       calls = [Call_OpenThread 7, Call_SuspendThread (ThreadHandle 7),
        Call_GetThreadContext (ThreadHandle 7), Call_SetThreadContext (ThreadHandle 7),
        Call_ResumeThread (ThreadHandle 7), Call_CloseHandle (ThreadHandle 7)]\<rparr>"] run
  show ?thesis by (simp add: TRUE_def ex_bp_def)
qed


section \<open>The descriptor after a failure\<close>

text \<open>
  C5. A failing \<open>bp_enable\<close> should leave every field of the descriptor as it was. It does
  not when the context write fails: \<open>bp_add_to_ctx\<close> has already stored the claimed slot in
  \<open>index\<close>, and the failure path does not restore it. Here the thread has all slots free,
  the write fails, \<open>bp_enable\<close> returns \<open>FALSE\<close> and \<open>index\<close> has gone from \<open>-1\<close> to \<open>0\<close>.
\<close>

theorem enable_write_failure_changes_index:
  "fst (bp_enable os_write_fails ex_bp ex_world) = FALSE \<and>
   index ex_bp = - 1 \<and>
   index (fst (snd (bp_enable os_write_fails ex_bp ex_world))) = 0 \<and>
   fst (snd (bp_enable os_write_fails ex_bp ex_world)) \<noteq> ex_bp"
  by (simp add: ex_defs run_defs)

text \<open>On every other failure the descriptor is unchanged, and on a write failure only
  \<open>index\<close> differs.\<close>

lemma enable_failure_descriptor:
  assumes "bp_enable r bp w = (res, bp', w')" "res = 0"
  shows "bp' = bp \<or>
         (suspended r \<and> GetThreadContext_ret r \<noteq> 0 \<and> SetThreadContext_ret r = 0 \<and>
          bp' = bp\<lparr>index := get_free_index (dr7_of_flags (Dr7 (thread_ctx w (threadId bp))))\<rparr>)"
  using assms
  by (auto simp: bp_enable_eq bp_add_to_ctx_eq Let_def TRUE_def FALSE_def suspended_def
      ctx_read_def Dr7_load split: if_splits)

lemma bp_init_inv: "descriptor_inv (bp_init bp lpTarget tid rw len)"
  by (simp add: bp_init_def descriptor_inv_def)

lemma bp_create_inv: "bp_create mem lpTarget tid rw len = Some bp \<Longrightarrow> descriptor_inv bp"
  by (auto simp: bp_create_def bp_init_inv split: option.splits)

text \<open>
  C7. The descriptor invariant (\<open>index = -1\<close> exactly when \<open>enabled\<close> is false) holds after
  \<open>bp_create\<close>, but a failed context write breaks it: after a failing \<open>bp_enable\<close> the slot is
  recorded and \<open>enabled\<close> is false, and after a failing \<open>bp_disable\<close> of an enabled
  descriptor the slot is unassigned and \<open>enabled\<close> is still true.
\<close>

theorem write_failure_breaks_descriptor_inv:
  "bp_create (Some ex_bp) 0x1000 7 DATA_WRITEONLY FOUR_BYTE = Some ex_bp \<and>
   descriptor_inv ex_bp \<and>
   fst (bp_enable os_write_fails ex_bp ex_world) = FALSE \<and>
   \<not> descriptor_inv (fst (snd (bp_enable os_write_fails ex_bp ex_world))) \<and>
   fst (bp_enable os_ok ex_bp ex_world) = TRUE \<and>
   descriptor_inv (fst (snd (bp_enable os_ok ex_bp ex_world))) \<and>
   fst (bp_disable os_write_fails (fst (snd (bp_enable os_ok ex_bp ex_world)))
          (snd (snd (bp_enable os_ok ex_bp ex_world)))) = FALSE \<and>
   \<not> descriptor_inv (fst (snd (bp_disable os_write_fails (fst (snd (bp_enable os_ok ex_bp ex_world)))
          (snd (snd (bp_enable os_ok ex_bp ex_world))))))"
  by (simp add: ex_defs run_defs bp_create_def bp_init_def descriptor_inv_def)

text \<open>Every other path keeps the invariant: success of either operation, and every failure
  in which the context write did not fail.\<close>

lemma enable_success_inv:
  "bp_enable r bp w = (res, bp', w') \<Longrightarrow> res \<noteq> 0 \<Longrightarrow> descriptor_inv bp'"
  using get_free_index_range [of "dr7_of_flags (Dr7 (ctx_read w (threadId bp)))"]
  by (auto simp: bp_enable_eq bp_add_to_ctx_eq Let_def FALSE_def descriptor_inv_def
      split: if_splits)

lemma disable_success_inv:
  "bp_disable r bp w = (res, bp', w') \<Longrightarrow> res \<noteq> 0 \<Longrightarrow> descriptor_inv bp'"
  by (auto simp: bp_disable_eq bp_remove_from_ctx_eq Let_def FALSE_def descriptor_inv_def
      split: if_splits)

lemma failure_inv_unless_write_fails:
  assumes "bp_enable r bp w = (res, bp', w') \<or> bp_disable r bp w = (res, bp', w')"
    and "res = 0" "descriptor_inv bp" "index bp \<in> {- 1, 0, 1, 2, 3}"
    and "SetThreadContext_ret r \<noteq> 0"
  shows "descriptor_inv bp'"
  using assms
  by (auto simp: bp_enable_eq bp_disable_eq bp_add_to_ctx_eq bp_remove_from_ctx_eq Let_def
      TRUE_def FALSE_def descriptor_inv_def split: if_splits)


section \<open>Disabling\<close>

text \<open>
  C6, as stated, fails: \<open>bp_disable\<close> with an unassigned slot does not fail before acquiring
  a handle or suspending the thread. With every primitive succeeding it opens the thread,
  suspends it and reads its context, and only then fails in \<open>bp_remove_from_ctx\<close>.
\<close>

theorem disable_unassigned_not_immediate:
  "index ex_bp = - 1 \<and>
   bp_disable os_ok ex_bp ex_world =
     (FALSE, ex_bp,
      ex_world\<lparr>calls := [Call_OpenThread 7, Call_SuspendThread (ThreadHandle 7),
        Call_GetThreadContext (ThreadHandle 7), Call_ResumeThread (ThreadHandle 7),
        Call_CloseHandle (ThreadHandle 7)]\<rparr>)"
  by (simp add: ex_defs run_defs)

lemma count_set_expected: "count_calls is_set_context (expected_calls r tid False) = 0"
  by (simp add: count_calls_def expected_calls_def Let_def)

text \<open>
  C6, amended. With an unassigned slot \<open>bp_disable\<close> always returns \<open>FALSE\<close>, makes exactly
  the calls of a transaction whose mutation step fails (so no context write), leaves the
  debug registers of every thread unchanged and the slot unassigned. Whenever
  \<open>bp_disable\<close> succeeds, the slot was one of \<open>0..3\<close> and the descriptor ends with the slot
  unassigned and \<open>enabled\<close> false.
\<close>

theorem disable_unassigned_fails_without_writing:
  "(bp_disable r bp w = (res, bp', w') \<longrightarrow> index bp = - 1 \<longrightarrow>
      res = 0 \<and> index bp' = - 1 \<and> thread_ctx w' = thread_ctx w \<and>
      new_calls w w' = expected_calls r (threadId bp) False \<and>
      count_calls is_set_context (new_calls w w') = 0) \<and>
   (bp_disable r bp w = (res, bp', w') \<longrightarrow> res \<noteq> 0 \<longrightarrow>
      index bp \<in> {0, 1, 2, 3} \<and> index bp' = - 1 \<and> enabled bp' = 0)"
  by (auto simp: bp_disable_eq bp_remove_from_ctx_eq Let_def TRUE_def FALSE_def
      new_calls_logged thread_ctx_written count_set_expected split: if_splits)

theorem disable_unassigned_fails_without_writing_witness:
  "bp_disable os_ok ex_bp ex_world =
     (FALSE, ex_bp,
      ex_world\<lparr>calls := [Call_OpenThread 7, Call_SuspendThread (ThreadHandle 7),
        Call_GetThreadContext (ThreadHandle 7), Call_ResumeThread (ThreadHandle 7),
        Call_CloseHandle (ThreadHandle 7)]\<rparr>) \<and>
   index ex_bp = - 1 \<and>
   count_calls is_set_context (new_calls ex_world
      (ex_world\<lparr>calls := [Call_OpenThread 7, Call_SuspendThread (ThreadHandle 7),
        Call_GetThreadContext (ThreadHandle 7), Call_ResumeThread (ThreadHandle 7),
        Call_CloseHandle (ThreadHandle 7)]\<rparr>)) = 0 \<and>
   bp_disable os_ok (ex_bp\<lparr>index := 0, enabled := 1\<rparr>) ex_world =
     (TRUE, ex_bp,
      ex_world\<lparr>calls := [Call_OpenThread 7, Call_SuspendThread (ThreadHandle 7),
        Call_GetThreadContext (ThreadHandle 7), Call_SetThreadContext (ThreadHandle 7),
        Call_ResumeThread (ThreadHandle 7), Call_CloseHandle (ThreadHandle 7)]\<rparr>) \<and>
   index ex_bp = - 1 \<and> enabled ex_bp = 0"
proof -
  have fails: "bp_disable os_ok ex_bp ex_world =
     (FALSE, ex_bp,
      ex_world\<lparr>calls := [Call_OpenThread 7, Call_SuspendThread (ThreadHandle 7),
        Call_GetThreadContext (ThreadHandle 7), Call_ResumeThread (ThreadHandle 7),
        Call_CloseHandle (ThreadHandle 7)]\<rparr>)"
    by (simp add: ex_defs run_defs)
  have succeeds: "bp_disable os_ok (ex_bp\<lparr>index := 0, enabled := 1\<rparr>) ex_world =
     (TRUE, ex_bp,
      ex_world\<lparr>calls := [Call_OpenThread 7, Call_SuspendThread (ThreadHandle 7),
        Call_GetThreadContext (ThreadHandle 7), Call_SetThreadContext (ThreadHandle 7),
        Call_ResumeThread (ThreadHandle 7), Call_CloseHandle (ThreadHandle 7)]\<rparr>)"
    by (simp add: ex_defs run_defs fun_eq_iff)
  from disable_unassigned_fails_without_writing [THEN conjunct1, rule_format, OF fails]
    disable_unassigned_fails_without_writing [THEN conjunct2, rule_format, OF succeeds]
    fails succeeds
  show ?thesis by (simp add: TRUE_def ex_bp_def count_set_expected)
qed

lemma set_slot_clear_after_set:
  "set_slot i 0 0 0 (set_slot i a l r d) = set_slot i 0 0 0 d"
  by (simp add: set_slot_def)

lemma set_slot_clear_empty:
  assumes "local_enable i d = 0" "length_field i d = 0" "read_write_field i d = 0" "i < 4"
  shows "set_slot i 0 0 0 d = d"
  using assms lt4_cases [of i]
  by (cases d) (auto simp: set_slot_def local_enable_def length_field_def read_write_field_def)

lemma free_slot_local_enable:
  "get_free_index d \<noteq> - 1 \<Longrightarrow> local_enable (unat (get_free_index d)) d = 0"
  by (auto simp: get_free_index_def local_enable_def split: if_splits)

text \<open>
  C8, as stated, fails. The thread below has no breakpoint (every local-enable and every
  global-enable bit of its DR7 \<open>0x30000\<close> is clear), but the type field of slot 0 still
  holds bits. \<open>bp_enable\<close> claims slot 0 and overwrites them, \<open>bp_disable\<close> zeroes the slot,
  both succeed, and DR7 ends as \<open>0\<close>, not as \<open>0x30000\<close>.
\<close>

theorem enable_disable_loses_stale_fields:
  "no_breakpoints (ex_ctx\<lparr>Dr7 := 0x30000\<rparr>) \<and>
   bp_enable os_ok ex_bp (ex_world\<lparr>thread_ctx := \<lambda>_. ex_ctx\<lparr>Dr7 := 0x30000\<rparr>\<rparr>) =
     (TRUE, ex_bp\<lparr>index := 0, enabled := 1\<rparr>,
      \<lparr>thread_ctx = (\<lambda>_. ex_ctx\<lparr>Dr7 := 0x30000\<rparr>)(7 := ex_ctx\<lparr>Dr0 := 0x1000, Dr7 := 0xD0001\<rparr>),
       calls = [Call_OpenThread 7, Call_SuspendThread (ThreadHandle 7),
         Call_GetThreadContext (ThreadHandle 7), Call_SetThreadContext (ThreadHandle 7),
         Call_ResumeThread (ThreadHandle 7), Call_CloseHandle (ThreadHandle 7)]\<rparr>) \<and>
   fst (bp_disable os_ok (ex_bp\<lparr>index := 0, enabled := 1\<rparr>)
      \<lparr>thread_ctx = (\<lambda>_. ex_ctx\<lparr>Dr7 := 0x30000\<rparr>)(7 := ex_ctx\<lparr>Dr0 := 0x1000, Dr7 := 0xD0001\<rparr>),
       calls = [Call_OpenThread 7, Call_SuspendThread (ThreadHandle 7),
         Call_GetThreadContext (ThreadHandle 7), Call_SetThreadContext (ThreadHandle 7),
         Call_ResumeThread (ThreadHandle 7), Call_CloseHandle (ThreadHandle 7)]\<rparr>) = TRUE \<and>
   Dr7 (thread_ctx (snd (snd (bp_disable os_ok (ex_bp\<lparr>index := 0, enabled := 1\<rparr>)
      \<lparr>thread_ctx = (\<lambda>_. ex_ctx\<lparr>Dr7 := 0x30000\<rparr>)(7 := ex_ctx\<lparr>Dr0 := 0x1000, Dr7 := 0xD0001\<rparr>),
       calls = [Call_OpenThread 7, Call_SuspendThread (ThreadHandle 7),
         Call_GetThreadContext (ThreadHandle 7), Call_SetThreadContext (ThreadHandle 7),
         Call_ResumeThread (ThreadHandle 7), Call_CloseHandle (ThreadHandle 7)]\<rparr>))) 7) = 0 \<and>
   Dr7 (thread_ctx (ex_world\<lparr>thread_ctx := \<lambda>_. ex_ctx\<lparr>Dr7 := 0x30000\<rparr>\<rparr>) 7) = 0x30000 \<and>
   (0 :: 64 word) \<noteq> 0x30000"
  by (simp add: ex_defs run_defs no_breakpoints_def)

text \<open>
  C8, amended. If the slot that \<open>bp_enable\<close> claims (the lowest slot whose local-enable bit
  is clear) holds no type and no length bits in the thread's DR7, then a successful
  \<open>bp_enable\<close> followed by a successful \<open>bp_disable\<close> of the same descriptor leaves the
  thread's DR7 with its original 64-bit value, whatever the other slots, the
  global-enable bits and the reserved bits hold. This covers every thread without
  breakpoints whose slot 0 has zero type and length fields.
\<close>

theorem enable_disable_restores_Dr7:
  assumes "claimed_slot_blank (thread_ctx w (threadId bp))"
    and "bp_enable r1 bp w = (res1, bp1, w1)" "res1 \<noteq> 0"
    and "bp_disable r2 bp1 w1 = (res2, bp2, w2)" "res2 \<noteq> 0"
  shows "Dr7 (thread_ctx w2 (threadId bp)) = Dr7 (thread_ctx w (threadId bp))"
proof -
  let ?tid = "threadId bp"
  let ?x = "Dr7 (thread_ctx w ?tid)"
  let ?d = "dr7_of_flags ?x"
  let ?idx = "get_free_index ?d"
  let ?l = "word_of_int (BP_LENGTH_val (length_f bp)) :: 2 word"
  let ?r = "word_of_int (BP_READ_WRITE_val (read_write bp)) :: 2 word"
  from assms(2,3) have free: "?idx \<noteq> - 1"
    and bp1: "bp1 = bp\<lparr>index := ?idx, enabled := 1\<rparr>"
    and w1: "Dr7 (thread_ctx w1 ?tid) = flags (set_slot (unat ?idx) 1 ?l ?r ?d)"
    by (auto simp: bp_enable_eq bp_add_to_ctx_eq Let_def FALSE_def thread_ctx_written
        ctx_read_def Dr7_load write_slot_def split: if_splits)
  from free have lt: "unat ?idx < 4"
    by (rule get_free_index_lt4)
  from free have enable_bit: "local_enable (unat ?idx) ?d = 0"
    by (rule free_slot_local_enable)
  from assms(1) have blank: "length_field (unat ?idx) ?d = 0" "read_write_field (unat ?idx) ?d = 0"
    by (simp_all add: claimed_slot_blank_def Let_def)
  from assms(4,5) have
    "Dr7 (thread_ctx w2 (threadId bp1)) =
       flags (set_slot (unat (index bp1)) 0 0 0 (dr7_of_flags (Dr7 (thread_ctx w1 (threadId bp1)))))"
    by (auto simp: bp_disable_eq bp_remove_from_ctx_eq Let_def FALSE_def thread_ctx_written
        ctx_read_def Dr7_load write_slot_def split: if_splits)
  then have "Dr7 (thread_ctx w2 ?tid) = flags (set_slot (unat ?idx) 0 0 0 ?d)"
    by (simp add: bp1 w1 decoded_flags set_slot_clear_after_set)
  moreover have "set_slot (unat ?idx) 0 0 0 ?d = ?d"
    using enable_bit blank lt by (rule set_slot_clear_empty)
  ultimately show ?thesis
    by (simp add: flags_decoded)
qed

theorem enable_disable_restores_Dr7_witness:
  "claimed_slot_blank (ex_ctx\<lparr>Dr7 := 0x3004AA\<rparr>) \<and>
   bp_enable os_ok ex_bp (ex_world\<lparr>thread_ctx := \<lambda>_. ex_ctx\<lparr>Dr7 := 0x3004AA\<rparr>\<rparr>) =
     (TRUE, ex_bp\<lparr>index := 0, enabled := 1\<rparr>,
      \<lparr>thread_ctx = (\<lambda>_. ex_ctx\<lparr>Dr7 := 0x3004AA\<rparr>)(7 := ex_ctx\<lparr>Dr0 := 0x1000, Dr7 := 0x3D04AB\<rparr>),
       calls = [Call_OpenThread 7, Call_SuspendThread (ThreadHandle 7),
         Call_GetThreadContext (ThreadHandle 7), Call_SetThreadContext (ThreadHandle 7),
         Call_ResumeThread (ThreadHandle 7), Call_CloseHandle (ThreadHandle 7)]\<rparr>) \<and>
   fst (bp_disable os_ok (ex_bp\<lparr>index := 0, enabled := 1\<rparr>)
      \<lparr>thread_ctx = (\<lambda>_. ex_ctx\<lparr>Dr7 := 0x3004AA\<rparr>)(7 := ex_ctx\<lparr>Dr0 := 0x1000, Dr7 := 0x3D04AB\<rparr>),
       calls = [Call_OpenThread 7, Call_SuspendThread (ThreadHandle 7),
         Call_GetThreadContext (ThreadHandle 7), Call_SetThreadContext (ThreadHandle 7),
         Call_ResumeThread (ThreadHandle 7), Call_CloseHandle (ThreadHandle 7)]\<rparr>) = TRUE \<and>
   Dr7 (thread_ctx (snd (snd (bp_disable os_ok (ex_bp\<lparr>index := 0, enabled := 1\<rparr>)
      \<lparr>thread_ctx = (\<lambda>_. ex_ctx\<lparr>Dr7 := 0x3004AA\<rparr>)(7 := ex_ctx\<lparr>Dr0 := 0x1000, Dr7 := 0x3D04AB\<rparr>),
       calls = [Call_OpenThread 7, Call_SuspendThread (ThreadHandle 7),
         Call_GetThreadContext (ThreadHandle 7), Call_SetThreadContext (ThreadHandle 7),
         Call_ResumeThread (ThreadHandle 7), Call_CloseHandle (ThreadHandle 7)]\<rparr>))) 7) = 0x3004AA"
proof -
  let ?w = "ex_world\<lparr>thread_ctx := \<lambda>_. ex_ctx\<lparr>Dr7 := 0x3004AA\<rparr>\<rparr>"
  let ?bp1 = "ex_bp\<lparr>index := 0, enabled := 1\<rparr>"
  let ?w1 = "\<lparr>thread_ctx = (\<lambda>_. ex_ctx\<lparr>Dr7 := 0x3004AA\<rparr>)(7 := ex_ctx\<lparr>Dr0 := 0x1000, Dr7 := 0x3D04AB\<rparr>),
       calls = [Call_OpenThread 7, Call_SuspendThread (ThreadHandle 7),
         Call_GetThreadContext (ThreadHandle 7), Call_SetThreadContext (ThreadHandle 7),
         Call_ResumeThread (ThreadHandle 7), Call_CloseHandle (ThreadHandle 7)]\<rparr>"
  have blank: "claimed_slot_blank (ex_ctx\<lparr>Dr7 := 0x3004AA\<rparr>)"
    by (simp add: claimed_slot_blank_def ex_defs dr7_of_flags_def bitfield_def
        get_free_index_def read_write_field_def length_field_def)
  then have blank': "claimed_slot_blank (thread_ctx ?w (threadId ex_bp))"
    by (simp add: ex_world_def)
  have e: "bp_enable os_ok ex_bp ?w = (TRUE, ?bp1, ?w1)"
    by (simp add: ex_defs run_defs)
  have d: "bp_disable os_ok ?bp1 ?w1 =
     (fst (bp_disable os_ok ?bp1 ?w1), fst (snd (bp_disable os_ok ?bp1 ?w1)),
      snd (snd (bp_disable os_ok ?bp1 ?w1)))"
    by simp
  have ok: "fst (bp_disable os_ok ?bp1 ?w1) = TRUE"
    by (simp add: ex_defs run_defs)
  then have ok': "fst (bp_disable os_ok ?bp1 ?w1) \<noteq> 0"
    by (simp add: TRUE_def)
  have t: "TRUE \<noteq> 0"
    by (simp add: TRUE_def)
  from enable_disable_restores_Dr7 [OF blank' e t d ok']
  have "Dr7 (thread_ctx (snd (snd (bp_disable os_ok ?bp1 ?w1))) 7) = 0x3004AA"
    by (simp add: ex_world_def ex_ctx_def ex_bp_def)
  with blank e ok show ?thesis
    by simp
qed

end
